theory Spec2Isabelle
  imports Complex_Main
begin

section \<open>The launch script \<^verbatim>\<open>examples/multigoal_ray.py\<close>\<close>

text \<open>
  The script builds its objects by calling constructors of external libraries and hands
  a trial to an external scheduler. The embedding keeps every value the script computes
  and records every call that leaves the script as an event of a trace, in the order
  in which Python evaluates them. What the external callables do is not modelled: a
  constructor returns a fresh opaque object, and the three externals whose results the
  script inspects (the generator \<^verbatim>\<open>algorithm.train()\<close>, the node address and the
  time stamp) are parameters of the model.
\<close>

subsection \<open>Values, events and errors\<close>

text \<open>
  A float literal is kept as the decimal number it denotes (the script does no float
  arithmetic); \<^verbatim>\<open>np.nan\<close> is a value of its own. \<open>VRef n\<close> is the object returned by
  the \<open>n\<close>-th event of the trace, \<open>VAttr v a\<close> the attribute \<^verbatim>\<open>v.a\<close> of an external object,
  \<open>VFun f\<close> a function of the script.
\<close>

datatype pyval =
    VNone
  | VBool bool
  | VInt int
  | VFloat rat
  | VNaN
  | VStr string
  | VList "pyval list"
  | VTuple "pyval list"
  | VDict "(string \<times> pyval) list"
  | VRef nat
  | VAttr pyval string
  | VFun string

type_synonym dict = "(string \<times> pyval) list"

text \<open>
  \<open>Call f args kwargs\<close>: the external callable \<open>f\<close> is called with these positional and
  keyword arguments. \<open>Train a\<close>: \<^verbatim>\<open>a.train()\<close> is called. \<open>Report kwargs\<close>: the callback
  \<^verbatim>\<open>reporter\<close> is called with these keyword arguments.
\<close>

datatype event =
    Call string "pyval list" dict
  | Train pyval
  | Report dict

datatype error =
    KeyError string
  | UnboundLocalError string
  | SystemExit int

type_synonym trace = "event list"

text \<open>A dictionary keeps its insertion order; storing under a present key replaces the value in place.\<close>

definition dict_get :: "dict \<Rightarrow> string \<Rightarrow> pyval option" where
  "dict_get d k = map_of d k"

fun dict_set :: "dict \<Rightarrow> string \<Rightarrow> pyval \<Rightarrow> dict" where
  "dict_set [] k v = [(k, v)]"
| "dict_set ((k', v') # d) k v =
     (if k' = k then (k, v) # d else (k', v') # dict_set d k v)"

text \<open>A call of an external constructor or function: one more event, and a fresh object.\<close>

definition call :: "string \<Rightarrow> pyval list \<Rightarrow> dict \<Rightarrow> trace \<Rightarrow> pyval \<times> trace" where
  "call f args kwargs tr = (VRef (length tr), tr @ [Call f args kwargs])"

subsection \<open>\<^verbatim>\<open>run\<close>\<close>

text \<open>
  The loop of lines 101-102: one call of \<^verbatim>\<open>reporter\<close> for each pair that the generator
  yields.
\<close>

fun report_loop :: "(pyval \<times> pyval) list \<Rightarrow> trace \<Rightarrow> trace" where
  "report_loop [] tr = tr"
| "report_loop ((epoch, mean_return) # rest) tr =
     report_loop rest
       (tr @ [Report [(''timesteps_total'', epoch), (''mean_accuracy'', mean_return)]])"

text \<open>
  \<open>run variant yields\<close> is the trace of \<^verbatim>\<open>run(variant, reporter)\<close> and the exception that
  ends it, if any, when \<^verbatim>\<open>algorithm.train()\<close> yields the pairs \<open>yields\<close>. The local
  \<^verbatim>\<open>policy\<close> is bound by neither branch of lines 47-70 when the policy type is
  neither string, so it is an option here and line 74 reads it, after \<^verbatim>\<open>qf1\<close> and
  before \<^verbatim>\<open>np.array\<close> is called.
\<close>

definition run :: "dict \<Rightarrow> (pyval \<times> pyval) list \<Rightarrow> trace \<times> error option" where
  "run variant yields =
    (let (env0, tr) = call ''MultiGoalEnv'' []
            [(''actuation_cost_coeff'', VInt 1),
             (''distance_cost_coeff'', VFloat (1 / 10)),
             (''goal_reward'', VInt 1),
             (''init_sigma'', VFloat (1 / 10))] [];
         (env, tr) = call ''normalize'' [env0] [] tr;
         (pool, tr) = call ''SimpleReplayBuffer'' []
            [(''max_replay_buffer_size'', VFloat 1000000),
             (''env_spec'', VAttr env ''spec'')] tr;
         (sampler, tr) = call ''SimpleSampler'' []
            [(''max_path_length'', VInt 30),
             (''min_pool_size'', VInt 100),
             (''batch_size'', VInt 64)] tr;
         base_kwargs = VDict
            [(''sampler'', sampler),
             (''epoch_length'', VInt 100),
             (''n_epochs'', VInt 1000),
             (''n_train_repeat'', VInt 1),
             (''eval_render'', VBool True),
             (''eval_n_episodes'', VInt 10),
             (''eval_deterministic'', VBool False)];
         M = VInt 128;
         (qf1, tr) = call ''NNQFunction'' []
            [(''env_spec'', VAttr env ''spec''),
             (''hidden_layer_sizes'', VList [M, M]),
             (''name'', VStr ''qf1'')] tr;
         (qf2, tr) = call ''NNQFunction'' []
            [(''env_spec'', VAttr env ''spec''),
             (''hidden_layer_sizes'', VList [M, M]),
             (''name'', VStr ''qf2'')] tr;
         (vf, tr) = call ''NNVFunction'' []
            [(''env_spec'', VAttr env ''spec''),
             (''hidden_layer_sizes'', VList [M, M])] tr
     in case dict_get variant ''policy_type'' of
          None \<Rightarrow> (tr, Some (KeyError ''policy_type''))
        | Some pt \<Rightarrow>
            (let (policy, tr) =
                   (if pt = VStr ''gmm'' then
                      (let (p, tr) = call ''GMMPolicy'' []
                             [(''env_spec'', VAttr env ''spec''),
                              (''K'', VInt 4),
                              (''hidden_layer_sizes'', VList [M, M]),
                              (''qf'', qf1),
                              (''reg'', VFloat (1 / 1000))] tr
                       in (Some p, tr))
                    else if pt = VStr ''lsp'' then
                      (let bijector_config = VDict
                             [(''scale_regularization'', VFloat 0),
                              (''num_coupling_layers'', VInt 2),
                              (''translation_hidden_sizes'', VTuple [M]),
                              (''scale_hidden_sizes'', VTuple [M])];
                           (p, tr) = call ''LatentSpacePolicy'' []
                             [(''env_spec'', VAttr env ''spec''),
                              (''mode'', VStr ''train''),
                              (''squash'', VBool True),
                              (''bijector_config'', bijector_config),
                              (''observations_preprocessor'', VNone),
                              (''q_function'', qf1)] tr
                       in (Some p, tr))
                    else (None, tr))
             in case policy of
                  None \<Rightarrow> (tr, Some (UnboundLocalError ''policy''))
                | Some policy \<Rightarrow>
                    (let (obs_lst, tr) = call ''np.array''
                           [VList [VList [VFloat (- 5 / 2), VFloat 0],
                                   VList [VFloat 0, VFloat 0],
                                   VList [VFloat (5 / 2), VFloat (5 / 2)]]] [] tr;
                         (plotter, tr) = call ''QFPolicyPlotter'' []
                           [(''qf'', qf1),
                            (''policy'', policy),
                            (''obs_lst'', obs_lst),
                            (''default_action'', VList [VNaN, VNaN]),
                            (''n_samples'', VInt 100)] tr;
                         (algorithm, tr) = call ''SAC'' []
                           [(''base_kwargs'', base_kwargs),
                            (''env'', env),
                            (''policy'', policy),
                            (''initial_exploration_policy'', VNone),
                            (''pool'', pool),
                            (''qf1'', qf1),
                            (''qf2'', qf2),
                            (''vf'', vf),
                            (''plotter'', plotter),
                            (''lr'', VFloat (3 / 10000)),
                            (''target_entropy'', VFloat (- 6)),
                            (''discount'', VFloat (99 / 100)),
                            (''tau'', VFloat (1 / 10000)),
                            (''save_full_state'', VBool True)] tr;
                         tr = tr @ [Train algorithm]
                     in (report_loop yields tr, None))))"

subsection \<open>\<^verbatim>\<open>parse_args\<close>\<close>

text \<open>
  The namespace that \<^verbatim>\<open>parse_args\<close> returns. The command line is the list of argument
  strings, \<^verbatim>\<open>sys.argv[1:]\<close>. The parser of lines 105-108 has three actions: the two
  that the script adds and the help action that \<^verbatim>\<open>ArgumentParser()\<close> adds by default,
  under the option strings \<^verbatim>\<open>-h\<close> and \<^verbatim>\<open>--help\<close>. The definitions below follow
  \<^verbatim>\<open>ArgumentParser.parse_args\<close> of the standard library (CPython 3.11) for this parser,
  and keep the names of its methods.
\<close>

record args =
  mode :: string
  policy_type :: string

datatype action = Help | Mode | PolicyType

definition option_string_actions :: "(string \<times> action) list" where
  "option_string_actions =
     [(''-h'', Help), (''--help'', Help), (''--mode'', Mode), (''--policy-type'', PolicyType)]"

text \<open>
  How the parser reads one argument string: as an argument (\<open>A\<close> in its pattern), as the
  separator \<^verbatim>\<open>--\<close>, as an option string that belongs to no action, or as the option of
  an action. \<open>Optional a opt x\<close> holds the action, its option string, and the explicit
  argument written in the same string, if any, with whether an \<^verbatim>\<open>=\<close> came before it.
\<close>

datatype arg_class =
    Positional
  | Separator
  | Unknown
  | Optional action string "(bool \<times> string) option"

definition starts_with :: "string \<Rightarrow> string \<Rightarrow> bool" where
  "starts_with s p = (take (length p) s = p)"

text \<open>
  The pattern \<^verbatim>\<open>^-\d+$|^-\d*\.\d+$\<close> of negative numbers; \<^verbatim>\<open>$\<close> also matches before a
  final newline.
\<close>

definition is_digit :: "char \<Rightarrow> bool" where
  "is_digit c = (c \<in> set ''0123456789'')"

definition negative_number_body :: "string \<Rightarrow> bool" where
  "negative_number_body s =
     (case s of
        [] \<Rightarrow> False
      | c # r \<Rightarrow>
          c = CHR ''-'' \<and>
          (let ds = takeWhile is_digit r; rest = dropWhile is_digit r
           in case rest of
                [] \<Rightarrow> ds \<noteq> []
              | d # f \<Rightarrow> d = CHR ''.'' \<and> f \<noteq> [] \<and> list_all is_digit f))"

definition negative_number_matcher :: "string \<Rightarrow> bool" where
  "negative_number_matcher s =
     (negative_number_body s \<or>
      (s \<noteq> [] \<and> last s = CHR 0x0A \<and> negative_number_body (butlast s)))"

text \<open>
  \<^verbatim>\<open>_get_option_tuples\<close>: the actions that an argument string may abbreviate. With two
  leading dashes, every option string that starts with the part before \<^verbatim>\<open>=\<close>; with one,
  the option string equal to its first two characters, the rest being an explicit
  argument, and every option string that starts with the whole string.
\<close>

definition get_option_tuples :: "string \<Rightarrow> arg_class list" where
  "get_option_tuples s =
     (if s ! 1 = CHR ''-'' then
        (let option_prefix = takeWhile (\<lambda>c. c \<noteq> CHR ''='') s;
             explicit_arg =
               (if CHR ''='' \<in> set s
                then Some (True, drop 1 (dropWhile (\<lambda>c. c \<noteq> CHR ''='') s)) else None)
         in concat (map (\<lambda>(opt, a).
              if starts_with opt option_prefix then [Optional a opt explicit_arg] else [])
              option_string_actions))
      else
        concat (map (\<lambda>(opt, a).
          if opt = take 2 s then [Optional a opt (Some (False, drop 2 s))]
          else if starts_with opt s then [Optional a opt None]
          else [])
          option_string_actions))"

text \<open>\<^verbatim>\<open>_parse_optional\<close>; an ambiguous abbreviation is a parser error at once.\<close>

definition parse_optional :: "string \<Rightarrow> error + arg_class" where
  "parse_optional s =
     (if s = [] then Inr Positional
      else if hd s \<noteq> CHR ''-'' then Inr Positional
      else case map_of option_string_actions s of
        Some a \<Rightarrow> Inr (Optional a s None)
      | None \<Rightarrow>
          if length s = 1 then Inr Positional
          else
            (let option_string = takeWhile (\<lambda>c. c \<noteq> CHR ''='') s;
                 sep = (CHR ''='' \<in> set s);
                 explicit_arg = drop 1 (dropWhile (\<lambda>c. c \<noteq> CHR ''='') s)
             in case (if sep then map_of option_string_actions option_string else None) of
                  Some a \<Rightarrow> Inr (Optional a option_string (Some (True, explicit_arg)))
                | None \<Rightarrow>
                    (let option_tuples = get_option_tuples s
                     in if length option_tuples > 1 then Inl (SystemExit 2)
                        else if length option_tuples = 1 then Inr (hd option_tuples)
                        else if negative_number_matcher s then Inr Positional
                        else if CHR '' '' \<in> set s then Inr Positional
                        else Inr Unknown)))"

text \<open>
  The first loop of \<^verbatim>\<open>_parse_known_args\<close>: every string is classified, up to the first
  \<^verbatim>\<open>--\<close>, after which all strings are arguments.
\<close>

fun arg_strings_pattern :: "string list \<Rightarrow> error + (string \<times> arg_class) list" where
  "arg_strings_pattern [] = Inr []"
| "arg_strings_pattern (s # rest) =
     (if s = ''--'' then Inr ((s, Separator) # map (\<lambda>t. (t, Positional)) rest)
      else case parse_optional s of
             Inl e \<Rightarrow> Inl e
           | Inr c \<Rightarrow>
               (case arg_strings_pattern rest of
                  Inl e \<Rightarrow> Inl e
                | Inr cs \<Rightarrow> Inr ((s, c) # cs)))"

text \<open>
  The help action takes no argument. An explicit argument after \<^verbatim>\<open>-h\<close> is read as more
  single-dash options: \<open>single_dash_tail sep x\<close> is the exit status on the explicit
  argument \<open>x\<close>, 2 for a parser error and 0 when the help action runs.
\<close>

fun single_dash_tail :: "bool \<Rightarrow> string \<Rightarrow> int" where
  "single_dash_tail sep [] = 2"
| "single_dash_tail sep (c # x) =
     (if sep \<or> c = CHR ''-'' then 2
      else if c = CHR ''h'' then
        (case x of
           [] \<Rightarrow> 0
         | d # y \<Rightarrow> if d = CHR ''='' then single_dash_tail True y else single_dash_tail False x)
      else 0)"

text \<open>
  \<^verbatim>\<open>take_action\<close>: the help action prints and exits with status 0; the two store actions
  check the value against \<^verbatim>\<open>choices\<close>, where there are any, and store it.
\<close>

fun take_action :: "action \<Rightarrow> string \<Rightarrow> args \<Rightarrow> error + args" where
  "take_action Help v ns = Inl (SystemExit 0)"
| "take_action Mode v ns = Inr (ns\<lparr>mode := v\<rparr>)"
| "take_action PolicyType v ns =
     (if v \<in> set [''gmm'', ''lsp''] then Inr (ns\<lparr>policy_type := v\<rparr>)
      else Inl (SystemExit 2))"

text \<open>
  The second loop, with \<^verbatim>\<open>consume_optional\<close>: options are handled from left to right. A
  store action takes its explicit argument or else the next string, which must be an
  argument. Strings that no option takes are extras, and extras are a parser error once
  all options are done. The parser has no positional argument of its own.
\<close>

fun consume :: "(string \<times> arg_class) list \<Rightarrow> args \<Rightarrow> bool \<Rightarrow> error + args" where
  "consume [] ns extras = (if extras then Inl (SystemExit 2) else Inr ns)"
| "consume ((s, Positional) # rest) ns extras = consume rest ns True"
| "consume ((s, Separator) # rest) ns extras = consume rest ns True"
| "consume ((s, Unknown) # rest) ns extras = consume rest ns True"
| "consume ((s, Optional Help opt None) # rest) ns extras = take_action Help [] ns"
| "consume ((s, Optional Help opt (Some (sep, x))) # rest) ns extras =
     (if opt ! 1 \<noteq> CHR ''-'' then Inl (SystemExit (single_dash_tail sep x))
      else Inl (SystemExit 2))"
| "consume ((s, Optional a opt (Some (sep, x))) # rest) ns extras =
     (case take_action a x ns of
        Inl e \<Rightarrow> Inl e
      | Inr ns' \<Rightarrow> consume rest ns' extras)"
| "consume ((s, Optional a opt None) # rest) ns extras =
     (case rest of
        (v, Positional) # rest' \<Rightarrow>
          (case take_action a v ns of
             Inl e \<Rightarrow> Inl e
           | Inr ns' \<Rightarrow> consume rest' ns' extras)
      | _ \<Rightarrow> Inl (SystemExit 2))"

definition parse_args :: "string list \<Rightarrow> error + args" where
  "parse_args argv =
     (case arg_strings_pattern argv of
        Inl e \<Rightarrow> Inl e
      | Inr strings \<Rightarrow> consume strings \<lparr>mode = ''local'', policy_type = ''gmm''\<rparr> False)"

subsection \<open>\<^verbatim>\<open>main\<close>\<close>

text \<open>
  \<open>main argv node_ip ts\<close> is the trace of \<^verbatim>\<open>main()\<close> on the command line \<open>argv\<close>, when
  \<^verbatim>\<open>ray.services.get_node_ip_address()\<close> returns \<open>node_ip\<close> and \<^verbatim>\<open>timestamp()\<close>
  returns \<open>ts\<close>.
\<close>

definition main :: "string list \<Rightarrow> string \<Rightarrow> string \<Rightarrow> trace \<times> error option" where
  "main argv node_ip ts =
    (case parse_args argv of
       Inl e \<Rightarrow> ([], Some e)
     | Inr a \<Rightarrow>
        (let variants = [(''policy_type'', VStr (policy_type a))];
             tr = [Call ''tune.register_trainable''
                     [VStr ''multigoal-runner'', VFun ''run''] []];
             (local_dir_base, tr) =
               (if mode a = ''local'' then
                  (''./data/ray/results'', tr @ [Call ''ray.init'' [] []])
                else
                  (''~/ray_results'',
                   tr @ [Call ''ray.services.get_node_ip_address'' [] [],
                         Call ''ray.init'' []
                           [(''redis_address'', VStr (node_ip @ '':6379''))]]));
             local_dir = local_dir_base @ ''/multigoal/default'';
             variants = dict_set variants ''local_dir'' (VStr local_dir);
             tr = tr @ [Call ''timestamp'' [] []];
             tr = tr @ [Call ''tune.run_experiments''
                     [VDict [(''multigoal-'' @ ts,
                        VDict [(''run'', VStr ''multigoal-runner''),
                               (''trial_resources'', VDict [(''cpu'', VInt 2)]),
                               (''config'', VDict variants),
                               (''local_dir'', VStr local_dir)])]] []]
         in (tr, None)))"

subsection \<open>Reading a trace\<close>

text \<open>
  The calls of the external callable \<open>f\<close> in a trace, in order, each with the object it
  returned; the keyword arguments of the calls of \<^verbatim>\<open>reporter\<close>; and whether the
  generator was started.
\<close>

fun calls_from :: "nat \<Rightarrow> string \<Rightarrow> trace \<Rightarrow> (pyval \<times> pyval list \<times> dict) list" where
  "calls_from n f [] = []"
| "calls_from n f (Call g args kwargs # tr) =
     (if g = f then (VRef n, args, kwargs) # calls_from (Suc n) f tr
      else calls_from (Suc n) f tr)"
| "calls_from n f (Train a # tr) = calls_from (Suc n) f tr"
| "calls_from n f (Report kwargs # tr) = calls_from (Suc n) f tr"

definition calls_to :: "string \<Rightarrow> trace \<Rightarrow> (pyval \<times> pyval list \<times> dict) list" where
  "calls_to f tr = calls_from 0 f tr"

fun reports :: "trace \<Rightarrow> dict list" where
  "reports [] = []"
| "reports (Report kwargs # tr) = kwargs # reports tr"
| "reports (Call g args kwargs # tr) = reports tr"
| "reports (Train a # tr) = reports tr"

fun trained :: "trace \<Rightarrow> pyval list" where
  "trained [] = []"
| "trained (Train a # tr) = a # trained tr"
| "trained (Call g args kwargs # tr) = trained tr"
| "trained (Report kwargs # tr) = trained tr"

text \<open>
  The objects that the calls of \<open>f\<close> returned, and the value each call of \<open>f\<close> gave to
  the keyword \<open>k\<close>.
\<close>

definition objects_of :: "string \<Rightarrow> trace \<Rightarrow> pyval list" where
  "objects_of f tr = map (\<lambda>(r, args, kwargs). r) (calls_to f tr)"

definition kwarg_of :: "string \<Rightarrow> string \<Rightarrow> trace \<Rightarrow> pyval option list" where
  "kwarg_of f k tr = map (\<lambda>(r, args, kwargs). dict_get kwargs k) (calls_to f tr)"

text \<open>An entry of a dictionary value, and its keys in order.\<close>

fun field :: "pyval option \<Rightarrow> string \<Rightarrow> pyval option" where
  "field (Some (VDict d)) k = dict_get d k"
| "field _ k = None"

fun keys :: "pyval option \<Rightarrow> string list" where
  "keys (Some (VDict d)) = map fst d"
| "keys _ = []"

text \<open>
  The experiments handed to \<^verbatim>\<open>tune.run_experiments\<close>: the entries, name and
  specification, of the dictionary that each of its calls receives.
\<close>

fun experiments_of :: "pyval list \<Rightarrow> dict" where
  "experiments_of [VDict es] = es"
| "experiments_of _ = []"

definition submitted :: "trace \<Rightarrow> dict" where
  "submitted tr =
     concat (map (\<lambda>(r, args, kwargs). experiments_of args)
       (calls_to ''tune.run_experiments'' tr))"

text \<open>The keyword arguments that the callback receives for a yielded pair.\<close>

definition report_of :: "pyval \<times> pyval \<Rightarrow> dict" where
  "report_of p = [(''timesteps_total'', fst p), (''mean_accuracy'', snd p)]"

subsection \<open>Well-formed command lines\<close>

text \<open>
  A well-formed occurrence of one of the two options: the option with its value,
  written in one string as \<^verbatim>\<open>--mode=VALUE\<close> or in two as \<^verbatim>\<open>--mode VALUE\<close>. A command
  line of such occurrences, each with the flag that it is written in two strings, and the
  values that it supplies for each option, in order.
\<close>

datatype cli_arg = ModeArg string | PolicyTypeArg string

fun value_of :: "cli_arg \<Rightarrow> string" where
  "value_of (ModeArg v) = v"
| "value_of (PolicyTypeArg v) = v"

fun joined :: "cli_arg \<Rightarrow> string list" where
  "joined (ModeArg v) = [''--mode='' @ v]"
| "joined (PolicyTypeArg v) = [''--policy-type='' @ v]"

fun separate :: "cli_arg \<Rightarrow> string list" where
  "separate (ModeArg v) = [''--mode'', v]"
| "separate (PolicyTypeArg v) = [''--policy-type'', v]"

fun command_line :: "(bool \<times> cli_arg) list \<Rightarrow> string list" where
  "command_line [] = []"
| "command_line ((two, a) # rest) = (if two then separate a else joined a) @ command_line rest"

fun mode_values :: "cli_arg list \<Rightarrow> string list" where
  "mode_values [] = []"
| "mode_values (ModeArg v # rest) = v # mode_values rest"
| "mode_values (PolicyTypeArg v # rest) = mode_values rest"

fun policy_type_values :: "cli_arg list \<Rightarrow> string list" where
  "policy_type_values [] = []"
| "policy_type_values (ModeArg v # rest) = policy_type_values rest"
| "policy_type_values (PolicyTypeArg v # rest) = v # policy_type_values rest"

section \<open>Traces of the loop and of \<^verbatim>\<open>run\<close>\<close>

text \<open>The loop adds calls of the callback only, one for each pair and in their order.\<close>

lemma calls_from_append:
  "calls_from n f (tr @ tr') = calls_from n f tr @ calls_from (n + length tr) f tr'"
  by (induction n f tr rule: calls_from.induct) simp_all

lemma reports_append: "reports (tr @ tr') = reports tr @ reports tr'"
  by (induction tr rule: reports.induct) simp_all

lemma trained_append: "trained (tr @ tr') = trained tr @ trained tr'"
  by (induction tr rule: trained.induct) simp_all

lemma calls_from_report_loop: "calls_from n f (report_loop ys tr) = calls_from n f tr"
  by (induction ys tr rule: report_loop.induct) (simp_all add: calls_from_append)

lemma trained_report_loop: "trained (report_loop ys tr) = trained tr"
  by (induction ys tr rule: report_loop.induct) (simp_all add: trained_append)

lemma reports_report_loop: "reports (report_loop ys tr) = reports tr @ map report_of ys"
  by (induction ys tr rule: report_loop.induct) (simp_all add: reports_append report_of_def)

text \<open>
  The four ways through \<^verbatim>\<open>run\<close>: the policy type is \<^verbatim>\<open>'gmm'\<close>, it is \<^verbatim>\<open>'lsp'\<close>, it is
  some other value, or the variant has no such key.
\<close>

lemma run_gmm:
  assumes "dict_get variant ''policy_type'' = Some (VStr ''gmm'')"
  shows "run variant ys =
   (report_loop ys
     [Call ''MultiGoalEnv'' []
        [(''actuation_cost_coeff'', VInt 1), (''distance_cost_coeff'', VFloat (1 / 10)),
         (''goal_reward'', VInt 1), (''init_sigma'', VFloat (1 / 10))],
      Call ''normalize'' [VRef 0] [],
      Call ''SimpleReplayBuffer'' []
        [(''max_replay_buffer_size'', VFloat 1000000), (''env_spec'', VAttr (VRef 1) ''spec'')],
      Call ''SimpleSampler'' []
        [(''max_path_length'', VInt 30), (''min_pool_size'', VInt 100), (''batch_size'', VInt 64)],
      Call ''NNQFunction'' []
        [(''env_spec'', VAttr (VRef 1) ''spec''),
         (''hidden_layer_sizes'', VList [VInt 128, VInt 128]), (''name'', VStr ''qf1'')],
      Call ''NNQFunction'' []
        [(''env_spec'', VAttr (VRef 1) ''spec''),
         (''hidden_layer_sizes'', VList [VInt 128, VInt 128]), (''name'', VStr ''qf2'')],
      Call ''NNVFunction'' []
        [(''env_spec'', VAttr (VRef 1) ''spec''),
         (''hidden_layer_sizes'', VList [VInt 128, VInt 128])],
      Call ''GMMPolicy'' []
        [(''env_spec'', VAttr (VRef 1) ''spec''), (''K'', VInt 4),
         (''hidden_layer_sizes'', VList [VInt 128, VInt 128]), (''qf'', VRef 4),
         (''reg'', VFloat (1 / 1000))],
      Call ''np.array''
        [VList [VList [VFloat (- 5 / 2), VFloat 0], VList [VFloat 0, VFloat 0],
                VList [VFloat (5 / 2), VFloat (5 / 2)]]] [],
      Call ''QFPolicyPlotter'' []
        [(''qf'', VRef 4), (''policy'', VRef 7), (''obs_lst'', VRef 8),
         (''default_action'', VList [VNaN, VNaN]), (''n_samples'', VInt 100)],
      Call ''SAC'' []
        [(''base_kwargs'',
          VDict [(''sampler'', VRef 3), (''epoch_length'', VInt 100), (''n_epochs'', VInt 1000),
                 (''n_train_repeat'', VInt 1), (''eval_render'', VBool True),
                 (''eval_n_episodes'', VInt 10), (''eval_deterministic'', VBool False)]),
         (''env'', VRef 1), (''policy'', VRef 7), (''initial_exploration_policy'', VNone),
         (''pool'', VRef 2), (''qf1'', VRef 4), (''qf2'', VRef 5), (''vf'', VRef 6),
         (''plotter'', VRef 9), (''lr'', VFloat (3 / 10000)), (''target_entropy'', VFloat (- 6)),
         (''discount'', VFloat (99 / 100)), (''tau'', VFloat (1 / 10000)),
         (''save_full_state'', VBool True)],
      Train (VRef 10)], None)"
  using assms by (simp add: run_def Let_def call_def eval_nat_numeral)

lemma run_lsp:
  assumes "dict_get variant ''policy_type'' = Some (VStr ''lsp'')"
  shows "run variant ys =
   (report_loop ys
     [Call ''MultiGoalEnv'' []
        [(''actuation_cost_coeff'', VInt 1), (''distance_cost_coeff'', VFloat (1 / 10)),
         (''goal_reward'', VInt 1), (''init_sigma'', VFloat (1 / 10))],
      Call ''normalize'' [VRef 0] [],
      Call ''SimpleReplayBuffer'' []
        [(''max_replay_buffer_size'', VFloat 1000000), (''env_spec'', VAttr (VRef 1) ''spec'')],
      Call ''SimpleSampler'' []
        [(''max_path_length'', VInt 30), (''min_pool_size'', VInt 100), (''batch_size'', VInt 64)],
      Call ''NNQFunction'' []
        [(''env_spec'', VAttr (VRef 1) ''spec''),
         (''hidden_layer_sizes'', VList [VInt 128, VInt 128]), (''name'', VStr ''qf1'')],
      Call ''NNQFunction'' []
        [(''env_spec'', VAttr (VRef 1) ''spec''),
         (''hidden_layer_sizes'', VList [VInt 128, VInt 128]), (''name'', VStr ''qf2'')],
      Call ''NNVFunction'' []
        [(''env_spec'', VAttr (VRef 1) ''spec''),
         (''hidden_layer_sizes'', VList [VInt 128, VInt 128])],
      Call ''LatentSpacePolicy'' []
        [(''env_spec'', VAttr (VRef 1) ''spec''), (''mode'', VStr ''train''),
         (''squash'', VBool True),
         (''bijector_config'',
          VDict [(''scale_regularization'', VFloat 0), (''num_coupling_layers'', VInt 2),
                 (''translation_hidden_sizes'', VTuple [VInt 128]),
                 (''scale_hidden_sizes'', VTuple [VInt 128])]),
         (''observations_preprocessor'', VNone), (''q_function'', VRef 4)],
      Call ''np.array''
        [VList [VList [VFloat (- 5 / 2), VFloat 0], VList [VFloat 0, VFloat 0],
                VList [VFloat (5 / 2), VFloat (5 / 2)]]] [],
      Call ''QFPolicyPlotter'' []
        [(''qf'', VRef 4), (''policy'', VRef 7), (''obs_lst'', VRef 8),
         (''default_action'', VList [VNaN, VNaN]), (''n_samples'', VInt 100)],
      Call ''SAC'' []
        [(''base_kwargs'',
          VDict [(''sampler'', VRef 3), (''epoch_length'', VInt 100), (''n_epochs'', VInt 1000),
                 (''n_train_repeat'', VInt 1), (''eval_render'', VBool True),
                 (''eval_n_episodes'', VInt 10), (''eval_deterministic'', VBool False)]),
         (''env'', VRef 1), (''policy'', VRef 7), (''initial_exploration_policy'', VNone),
         (''pool'', VRef 2), (''qf1'', VRef 4), (''qf2'', VRef 5), (''vf'', VRef 6),
         (''plotter'', VRef 9), (''lr'', VFloat (3 / 10000)), (''target_entropy'', VFloat (- 6)),
         (''discount'', VFloat (99 / 100)), (''tau'', VFloat (1 / 10000)),
         (''save_full_state'', VBool True)],
      Train (VRef 10)], None)"
  using assms by (simp add: run_def Let_def call_def eval_nat_numeral)

lemma run_other:
  assumes "dict_get variant ''policy_type'' = Some v" and "v \<noteq> VStr ''gmm''" and "v \<noteq> VStr ''lsp''"
  shows "run variant ys =
    ([Call ''MultiGoalEnv'' []
        [(''actuation_cost_coeff'', VInt 1), (''distance_cost_coeff'', VFloat (1 / 10)),
         (''goal_reward'', VInt 1), (''init_sigma'', VFloat (1 / 10))],
      Call ''normalize'' [VRef 0] [],
      Call ''SimpleReplayBuffer'' []
        [(''max_replay_buffer_size'', VFloat 1000000), (''env_spec'', VAttr (VRef 1) ''spec'')],
      Call ''SimpleSampler'' []
        [(''max_path_length'', VInt 30), (''min_pool_size'', VInt 100), (''batch_size'', VInt 64)],
      Call ''NNQFunction'' []
        [(''env_spec'', VAttr (VRef 1) ''spec''),
         (''hidden_layer_sizes'', VList [VInt 128, VInt 128]), (''name'', VStr ''qf1'')],
      Call ''NNQFunction'' []
        [(''env_spec'', VAttr (VRef 1) ''spec''),
         (''hidden_layer_sizes'', VList [VInt 128, VInt 128]), (''name'', VStr ''qf2'')],
      Call ''NNVFunction'' []
        [(''env_spec'', VAttr (VRef 1) ''spec''),
         (''hidden_layer_sizes'', VList [VInt 128, VInt 128])]],
     Some (UnboundLocalError ''policy''))"
  using assms by (simp add: run_def Let_def call_def eval_nat_numeral)


lemmas trace_eval =
  calls_to_def objects_of_def kwarg_of_def submitted_def dict_get_def
  calls_from_report_loop reports_report_loop trained_report_loop eval_nat_numeral


section \<open>Traces of \<^verbatim>\<open>main\<close> and results of \<^verbatim>\<open>parse_args\<close>\<close>

lemma main_local:
  assumes "parse_args argv = Inr a" and "mode a = ''local''"
  shows "main argv node_ip ts =
    ([Call ''tune.register_trainable'' [VStr ''multigoal-runner'', VFun ''run''] [],
      Call ''ray.init'' [] [],
      Call ''timestamp'' [] [],
      Call ''tune.run_experiments''
        [VDict [(''multigoal-'' @ ts,
           VDict [(''run'', VStr ''multigoal-runner''),
                  (''trial_resources'', VDict [(''cpu'', VInt 2)]),
                  (''config'',
                   VDict [(''policy_type'', VStr (policy_type a)),
                          (''local_dir'', VStr ''./data/ray/results/multigoal/default'')]),
                  (''local_dir'', VStr ''./data/ray/results/multigoal/default'')])]] []],
     None)"
  using assms by (simp add: main_def Let_def)

lemma main_cluster:
  assumes "parse_args argv = Inr a" and "mode a \<noteq> ''local''"
  shows "main argv node_ip ts =
    ([Call ''tune.register_trainable'' [VStr ''multigoal-runner'', VFun ''run''] [],
      Call ''ray.services.get_node_ip_address'' [] [],
      Call ''ray.init'' [] [(''redis_address'', VStr (node_ip @ '':6379''))],
      Call ''timestamp'' [] [],
      Call ''tune.run_experiments''
        [VDict [(''multigoal-'' @ ts,
           VDict [(''run'', VStr ''multigoal-runner''),
                  (''trial_resources'', VDict [(''cpu'', VInt 2)]),
                  (''config'',
                   VDict [(''policy_type'', VStr (policy_type a)),
                          (''local_dir'', VStr ''~/ray_results/multigoal/default'')]),
                  (''local_dir'', VStr ''~/ray_results/multigoal/default'')])]] []],
     None)"
  using assms by (simp add: main_def Let_def)

text \<open>How the parser reads the strings of a well-formed occurrence.\<close>

lemma parse_optional_plain:
  "v = [] \<or> hd v \<noteq> CHR ''-'' \<Longrightarrow> parse_optional v = Inr Positional"
  by (auto simp add: parse_optional_def)

lemma parse_optional_mode:
  "parse_optional ''--mode'' = Inr (Optional Mode ''--mode'' None)"
  by (simp add: parse_optional_def option_string_actions_def)

lemma parse_optional_policy_type:
  "parse_optional ''--policy-type'' = Inr (Optional PolicyType ''--policy-type'' None)"
  by (simp add: parse_optional_def option_string_actions_def)

lemma parse_optional_mode_eq:
  "parse_optional (''--mode='' @ v) = Inr (Optional Mode ''--mode'' (Some (True, v)))"
  by (simp add: parse_optional_def option_string_actions_def)

lemma parse_optional_policy_type_eq:
  "parse_optional (''--policy-type='' @ v)
     = Inr (Optional PolicyType ''--policy-type'' (Some (True, v)))"
  by (simp add: parse_optional_def option_string_actions_def)

lemma plain_not_separator: "v = [] \<or> hd v \<noteq> CHR ''-'' \<Longrightarrow> v \<noteq> ''--''"
  by auto

text \<open>
  On a command line of well-formed occurrences the parser stores the values in turn and
  stops at the first policy type outside the choices.
\<close>

lemma parse_command_line:
  assumes "\<forall>(two, a) \<in> set occs. two \<longrightarrow> value_of a = [] \<or> hd (value_of a) \<noteq> CHR ''-''"
  shows "\<exists>strings. arg_strings_pattern (command_line occs) = Inr strings \<and>
           (\<forall>ns. consume strings ns False =
              (if \<forall>v \<in> set (policy_type_values (map snd occs)). v = ''gmm'' \<or> v = ''lsp''
               then Inr \<lparr>mode = last (mode ns # mode_values (map snd occs)),
                         policy_type = last (policy_type ns # policy_type_values (map snd occs))\<rparr>
               else Inl (SystemExit 2)))"
  using assms
proof (induction occs)
  case Nil
  show ?case by simp
next
  case (Cons occ occs)
  obtain two a where occ: "occ = (two, a)" by (cases occ)
  from Cons.prems have "\<forall>(two, a) \<in> set occs. two \<longrightarrow> value_of a = [] \<or> hd (value_of a) \<noteq> CHR ''-''"
    by simp
  from Cons.IH [OF this] obtain strings where
    pat: "arg_strings_pattern (command_line occs) = Inr strings" and
    con: "\<And>ns. consume strings ns False =
              (if \<forall>v \<in> set (policy_type_values (map snd occs)). v = ''gmm'' \<or> v = ''lsp''
               then Inr \<lparr>mode = last (mode ns # mode_values (map snd occs)),
                         policy_type = last (policy_type ns # policy_type_values (map snd occs))\<rparr>
               else Inl (SystemExit 2))"
    by blast
  from Cons.prems occ have plain: "two \<Longrightarrow> value_of a = [] \<or> hd (value_of a) \<noteq> CHR ''-''"
    by simp
  show ?case
  proof (cases a)
    case (ModeArg v)
    show ?thesis
    proof (cases two)
      case True
      with plain ModeArg have p: "v = [] \<or> hd v \<noteq> CHR ''-''" by simp
      have "arg_strings_pattern (command_line (occ # occs))
          = Inr ((''--mode'', Optional Mode ''--mode'' None) # (v, Positional) # strings)"
        using occ ModeArg True pat plain_not_separator [OF p]
        by (simp add: parse_optional_mode parse_optional_plain [OF p])
      then show ?thesis using occ ModeArg by (simp add: con)
    next
      case False
      have "arg_strings_pattern (command_line (occ # occs))
          = Inr ((''--mode='' @ v, Optional Mode ''--mode'' (Some (True, v))) # strings)"
        using occ ModeArg False pat parse_optional_mode_eq [of v] by simp
      then show ?thesis using occ ModeArg by (simp add: con)
    qed
  next
    case (PolicyTypeArg v)
    show ?thesis
    proof (cases two)
      case True
      with plain PolicyTypeArg have p: "v = [] \<or> hd v \<noteq> CHR ''-''" by simp
      have "arg_strings_pattern (command_line (occ # occs))
          = Inr ((''--policy-type'', Optional PolicyType ''--policy-type'' None)
                 # (v, Positional) # strings)"
        using occ PolicyTypeArg True pat plain_not_separator [OF p]
        by (simp add: parse_optional_policy_type parse_optional_plain [OF p])
      then show ?thesis using occ PolicyTypeArg by (auto simp add: con)
    next
      case False
      have "arg_strings_pattern (command_line (occ # occs))
          = Inr ((''--policy-type='' @ v,
                  Optional PolicyType ''--policy-type'' (Some (True, v))) # strings)"
        using occ PolicyTypeArg False pat parse_optional_policy_type_eq [of v] by simp
      then show ?thesis using occ PolicyTypeArg by (auto simp add: con)
    qed
  qed
qed

text \<open>
  The namespaces that \<^verbatim>\<open>parse_args\<close> can return, on any command line at all: the policy
  type is one of the two choices, and every such namespace is returned for some command
  line.
\<close>

lemma consume_policy_type:
  "consume strings ns extras = Inr a \<Longrightarrow>
   policy_type ns = ''gmm'' \<or> policy_type ns = ''lsp'' \<Longrightarrow>
   policy_type a = ''gmm'' \<or> policy_type a = ''lsp''"
  by (induction strings ns extras rule: consume.induct)
    (auto split: sum.splits if_splits list.splits arg_class.splits)

lemma parse_args_policy_type:
  "parse_args argv = Inr a \<Longrightarrow> policy_type a = ''gmm'' \<or> policy_type a = ''lsp''"
  by (auto simp add: parse_args_def split: sum.splits dest: consume_policy_type)

lemma parse_args_reaches:
  assumes "p = ''gmm'' \<or> p = ''lsp''"
  shows "parse_args [''--mode='' @ m, ''--policy-type='' @ p]
           = Inr \<lparr>mode = m, policy_type = p\<rparr>"
  using assms
  by (auto simp add: parse_args_def parse_optional_mode_eq [simplified]
      parse_optional_policy_type_eq [simplified])

lemmas parse_eval =
  parse_args_def parse_optional_def option_string_actions_def get_option_tuples_def
  starts_with_def negative_number_matcher_def negative_number_body_def is_digit_def

section \<open>The claims\<close>

subsection \<open>\<^verbatim>\<open>main\<close>\<close>

text \<open>
  Claim C1. Every invocation of \<^verbatim>\<open>main\<close> whose argument parsing succeeds ends without
  an exception and calls \<^verbatim>\<open>tune.run_experiments\<close> exactly once, with exactly one
  experiment, named \<^verbatim>\<open>'multigoal-'\<close> followed by the time stamp. Its \<^verbatim>\<open>'run'\<close> field is
  \<^verbatim>\<open>'multigoal-runner'\<close>, the name under which the first event of the trace registered
  the function \<^verbatim>\<open>run\<close>; its \<^verbatim>\<open>'trial_resources'\<close> are \<^verbatim>\<open>{'cpu': 2}\<close>; and its
  \<^verbatim>\<open>'config'\<close> is a dictionary whose \<^verbatim>\<open>'policy_type'\<close> is the parsed policy type.
\<close>

theorem main_submits_one_experiment:
  assumes "parse_args argv = Inr a"
  shows "snd (main argv node_ip ts) = None \<and>
         length (calls_to ''tune.run_experiments'' (fst (main argv node_ip ts))) = 1 \<and>
         map fst (submitted (fst (main argv node_ip ts))) = [''multigoal-'' @ ts] \<and>
         map (\<lambda>(name, e). field (Some e) ''run'') (submitted (fst (main argv node_ip ts)))
           = [Some (VStr ''multigoal-runner'')] \<and>
         calls_to ''tune.register_trainable'' (fst (main argv node_ip ts))
           = [(VRef 0, [VStr ''multigoal-runner'', VFun ''run''], [])] \<and>
         map (\<lambda>(name, e). field (Some e) ''trial_resources'')
             (submitted (fst (main argv node_ip ts)))
           = [Some (VDict [(''cpu'', VInt 2)])] \<and>
         map (\<lambda>(name, e). field (field (Some e) ''config'') ''policy_type'')
             (submitted (fst (main argv node_ip ts)))
           = [Some (VStr (policy_type a))]"
proof (cases "mode a = ''local''")
  case True
  show ?thesis by (simp add: main_local [OF assms True] trace_eval)
next
  case False
  show ?thesis by (simp add: main_cluster [OF assms False] trace_eval)
qed

theorem main_submits_one_experiment_witness:
  "parse_args [''--policy-type'', ''lsp''] = Inr \<lparr>mode = ''local'', policy_type = ''lsp''\<rparr> \<and>
   snd (main [''--policy-type'', ''lsp''] ''10.0.0.7'' ''2018-09-01'') = None \<and>
   length (calls_to ''tune.run_experiments''
     (fst (main [''--policy-type'', ''lsp''] ''10.0.0.7'' ''2018-09-01''))) = 1 \<and>
   map fst (submitted (fst (main [''--policy-type'', ''lsp''] ''10.0.0.7'' ''2018-09-01'')))
     = [''multigoal-2018-09-01''] \<and>
   map (\<lambda>(name, e). field (Some e) ''run'')
       (submitted (fst (main [''--policy-type'', ''lsp''] ''10.0.0.7'' ''2018-09-01'')))
     = [Some (VStr ''multigoal-runner'')] \<and>
   map (\<lambda>(name, e). field (field (Some e) ''config'') ''policy_type'')
       (submitted (fst (main [''--policy-type'', ''lsp''] ''10.0.0.7'' ''2018-09-01'')))
     = [Some (VStr ''lsp'')]"
proof -
  have p: "parse_args [''--policy-type'', ''lsp''] = Inr \<lparr>mode = ''local'', policy_type = ''lsp''\<rparr>"
    by (simp add: parse_eval)
  from main_submits_one_experiment [OF p, of "''10.0.0.7''" "''2018-09-01''"] p
  show ?thesis by simp
qed

text \<open>
  Claim C6. When the parsed mode is \<^verbatim>\<open>'local'\<close>, \<^verbatim>\<open>main\<close> calls \<^verbatim>\<open>ray.init\<close> once, with
  no argument at all, never asks for the node address, and the experiment's
  \<^verbatim>\<open>'local_dir'\<close> is \<^verbatim>\<open>'./data/ray/results/multigoal/default'\<close>. For every other mode it
  asks for the node address, calls \<^verbatim>\<open>ray.init\<close> once with \<^verbatim>\<open>redis_address\<close> that address
  followed by \<^verbatim>\<open>':6379'\<close>, and the \<^verbatim>\<open>'local_dir'\<close> is
  \<^verbatim>\<open>'~/ray_results/multigoal/default'\<close>.
\<close>

theorem main_ray_init_and_local_dir:
  assumes "parse_args argv = Inr a"
  shows "if mode a = ''local''
         then calls_to ''ray.init'' (fst (main argv node_ip ts)) = [(VRef 1, [], [])] \<and>
              calls_to ''ray.services.get_node_ip_address'' (fst (main argv node_ip ts)) = [] \<and>
              map (\<lambda>(name, e). field (Some e) ''local_dir'')
                  (submitted (fst (main argv node_ip ts)))
                = [Some (VStr ''./data/ray/results/multigoal/default'')]
         else calls_to ''ray.init'' (fst (main argv node_ip ts))
                = [(VRef 2, [], [(''redis_address'', VStr (node_ip @ '':6379''))])] \<and>
              calls_to ''ray.services.get_node_ip_address'' (fst (main argv node_ip ts))
                = [(VRef 1, [], [])] \<and>
              map (\<lambda>(name, e). field (Some e) ''local_dir'')
                  (submitted (fst (main argv node_ip ts)))
                = [Some (VStr ''~/ray_results/multigoal/default'')]"
proof (cases "mode a = ''local''")
  case True
  show ?thesis by (simp add: main_local [OF assms True] True trace_eval)
next
  case False
  show ?thesis by (simp add: main_cluster [OF assms False] False trace_eval)
qed

theorem main_ray_init_and_local_dir_witness:
  "calls_to ''ray.init'' (fst (main [] ''10.0.0.7'' ''t0'')) = [(VRef 1, [], [])] \<and>
   map (\<lambda>(name, e). field (Some e) ''local_dir'') (submitted (fst (main [] ''10.0.0.7'' ''t0'')))
     = [Some (VStr ''./data/ray/results/multigoal/default'')] \<and>
   calls_to ''ray.init'' (fst (main [''--mode'', ''cluster''] ''10.0.0.7'' ''t0''))
     = [(VRef 2, [], [(''redis_address'', VStr ''10.0.0.7:6379'')])] \<and>
   map (\<lambda>(name, e). field (Some e) ''local_dir'')
       (submitted (fst (main [''--mode'', ''cluster''] ''10.0.0.7'' ''t0'')))
     = [Some (VStr ''~/ray_results/multigoal/default'')]"
proof -
  have p: "parse_args [] = Inr \<lparr>mode = ''local'', policy_type = ''gmm''\<rparr>"
    by (simp add: parse_eval)
  have q: "parse_args [''--mode'', ''cluster''] = Inr \<lparr>mode = ''cluster'', policy_type = ''gmm''\<rparr>"
    by (simp add: parse_eval)
  from main_ray_init_and_local_dir [OF p, of "''10.0.0.7''" "''t0''"]
       main_ray_init_and_local_dir [OF q, of "''10.0.0.7''" "''t0''"]
  show ?thesis by simp
qed

text \<open>
  Claim C9. \<^verbatim>\<open>main\<close> stores \<^verbatim>\<open>'local_dir'\<close> in the variants dictionary before it submits
  it: the \<^verbatim>\<open>'config'\<close> of the submitted experiment has exactly the two keys
  \<^verbatim>\<open>'policy_type'\<close> and \<^verbatim>\<open>'local_dir'\<close>, and its \<^verbatim>\<open>'local_dir'\<close> is the value of the
  experiment's own \<^verbatim>\<open>'local_dir'\<close> field.
\<close>

theorem main_config_keys:
  assumes "parse_args argv = Inr a"
  shows "map (\<lambda>(name, e). keys (field (Some e) ''config''))
             (submitted (fst (main argv node_ip ts)))
           = [[''policy_type'', ''local_dir'']] \<and>
         (\<exists>d. map (\<lambda>(name, e). field (Some e) ''local_dir'')
                  (submitted (fst (main argv node_ip ts))) = [Some d] \<and>
              map (\<lambda>(name, e). field (field (Some e) ''config'') ''local_dir'')
                  (submitted (fst (main argv node_ip ts))) = [Some d])"
proof (cases "mode a = ''local''")
  case True
  show ?thesis by (simp add: main_local [OF assms True] trace_eval)
next
  case False
  show ?thesis by (simp add: main_cluster [OF assms False] trace_eval)
qed

theorem main_config_keys_witness:
  "parse_args [''--mode'', ''cluster''] = Inr \<lparr>mode = ''cluster'', policy_type = ''gmm''\<rparr> \<and>
   map (\<lambda>(name, e). keys (field (Some e) ''config''))
       (submitted (fst (main [''--mode'', ''cluster''] ''10.0.0.7'' ''t0'')))
     = [[''policy_type'', ''local_dir'']] \<and>
   (\<exists>d. map (\<lambda>(name, e). field (Some e) ''local_dir'')
            (submitted (fst (main [''--mode'', ''cluster''] ''10.0.0.7'' ''t0''))) = [Some d] \<and>
        map (\<lambda>(name, e). field (field (Some e) ''config'') ''local_dir'')
            (submitted (fst (main [''--mode'', ''cluster''] ''10.0.0.7'' ''t0''))) = [Some d])"
proof -
  have q: "parse_args [''--mode'', ''cluster''] = Inr \<lparr>mode = ''cluster'', policy_type = ''gmm''\<rparr>"
    by (simp add: parse_eval)
  from main_config_keys [OF q, of "''10.0.0.7''" "''t0''"] q show ?thesis by blast
qed

subsection \<open>\<^verbatim>\<open>parse_args\<close>\<close>

text \<open>
  Claim C3, as stated: parsing succeeds exactly when the supplied value of
  \<^verbatim>\<open>--policy-type\<close>, if there is one, is \<^verbatim>\<open>'gmm'\<close> or \<^verbatim>\<open>'lsp'\<close>, and \<^verbatim>\<open>--mode\<close> takes
  an arbitrary string. It fails on command lines that supply no bad policy type and yet
  do not parse: a value of \<^verbatim>\<open>--mode\<close> that is a string of its own and looks like an
  option, an option that the parser does not know, a string that no option takes, an
  option without its value, all parser errors with exit status 2, and \<^verbatim>\<open>-h\<close>, which
  prints the help and exits with status 0.
\<close>

theorem parse_args_rejects_other_command_lines:
  "parse_args [''--mode'', ''-x''] = Inl (SystemExit 2) \<and>
   parse_args [''--verbose''] = Inl (SystemExit 2) \<and>
   parse_args [''--policy-type'', ''gmm'', ''extra''] = Inl (SystemExit 2) \<and>
   parse_args [''--policy-type''] = Inl (SystemExit 2) \<and>
   parse_args [''-h''] = Inl (SystemExit 0)"
  by (simp add: parse_eval)

text \<open>
  Claim C3, amended. \<^verbatim>\<open>parse_args\<close> takes any string as the value of \<^verbatim>\<open>--mode\<close> when
  it is written \<^verbatim>\<open>--mode=VALUE\<close>, and any string that is empty or does not start with
  \<^verbatim>\<open>-\<close> when it is the string after \<^verbatim>\<open>--mode\<close>; the same holds for \<^verbatim>\<open>--policy-type\<close>.
  On a command line made only of such occurrences of the two options, parsing succeeds
  exactly when every supplied value of \<^verbatim>\<open>--policy-type\<close> is \<^verbatim>\<open>'gmm'\<close> or \<^verbatim>\<open>'lsp'\<close>, and
  is a parser error with exit status 2 otherwise. On success the namespace holds, for
  each option, the last value supplied, or its default, \<^verbatim>\<open>'local'\<close> for the mode and
  \<^verbatim>\<open>'gmm'\<close> for the policy type, when the option is absent.
\<close>

theorem parse_args_well_formed:
  assumes "\<forall>(two, a) \<in> set occs. two \<longrightarrow> value_of a = [] \<or> hd (value_of a) \<noteq> CHR ''-''"
  shows "parse_args (command_line occs) =
     (if \<forall>v \<in> set (policy_type_values (map snd occs)). v = ''gmm'' \<or> v = ''lsp''
      then Inr \<lparr>mode = last (''local'' # mode_values (map snd occs)),
                policy_type = last (''gmm'' # policy_type_values (map snd occs))\<rparr>
      else Inl (SystemExit 2))"
proof -
  from parse_command_line [OF assms] obtain strings where
    "arg_strings_pattern (command_line occs) = Inr strings" and
    "\<And>ns. consume strings ns False =
              (if \<forall>v \<in> set (policy_type_values (map snd occs)). v = ''gmm'' \<or> v = ''lsp''
               then Inr \<lparr>mode = last (mode ns # mode_values (map snd occs)),
                         policy_type = last (policy_type ns # policy_type_values (map snd occs))\<rparr>
               else Inl (SystemExit 2))"
    by blast
  then show ?thesis by (simp add: parse_args_def)
qed

theorem parse_args_well_formed_witness:
  "parse_args [] = Inr \<lparr>mode = ''local'', policy_type = ''gmm''\<rparr> \<and>
   parse_args [''--mode=-any string'', ''--policy-type'', ''lsp'']
     = Inr \<lparr>mode = ''-any string'', policy_type = ''lsp''\<rparr> \<and>
   parse_args [''--mode'', ''cluster'', ''--policy-type=gmm'']
     = Inr \<lparr>mode = ''cluster'', policy_type = ''gmm''\<rparr> \<and>
   parse_args [''--policy-type=gmm'', ''--policy-type'', ''mlp''] = Inl (SystemExit 2)"
proof -
  have a: "\<forall>(two, a) \<in> set []. two \<longrightarrow> value_of a = [] \<or> hd (value_of a) \<noteq> CHR ''-''"
    by simp
  have b: "\<forall>(two, a) \<in> set [(False, ModeArg ''-any string''), (True, PolicyTypeArg ''lsp'')].
             two \<longrightarrow> value_of a = [] \<or> hd (value_of a) \<noteq> CHR ''-''"
    by simp
  have c: "\<forall>(two, a) \<in> set [(True, ModeArg ''cluster''), (False, PolicyTypeArg ''gmm'')].
             two \<longrightarrow> value_of a = [] \<or> hd (value_of a) \<noteq> CHR ''-''"
    by simp
  have d: "\<forall>(two, a) \<in> set [(False, PolicyTypeArg ''gmm''), (True, PolicyTypeArg ''mlp'')].
             two \<longrightarrow> value_of a = [] \<or> hd (value_of a) \<noteq> CHR ''-''"
    by simp
  from parse_args_well_formed [OF a] parse_args_well_formed [OF b]
       parse_args_well_formed [OF c] parse_args_well_formed [OF d]
  show ?thesis by simp
qed

subsection \<open>\<^verbatim>\<open>run\<close>\<close>



text \<open>
  Claim C4, as stated, for every variant: it fails on a variant whose policy type is
  neither \<^verbatim>\<open>'gmm'\<close> nor \<^verbatim>\<open>'lsp'\<close>, where \<^verbatim>\<open>run\<close> ends before line 82 and constructs no
  SAC algorithm at all.
\<close>

theorem run_sac_not_constructed:
  "calls_to ''SAC'' (fst (run [(''policy_type'', VStr ''vae'')] [])) = []"
  by (simp add: run_other [where v = "VStr ''vae''"] trace_eval)

text \<open>
  Claim C4, amended. For every variant whose policy type is \<^verbatim>\<open>'gmm'\<close> or \<^verbatim>\<open>'lsp'\<close>,
  \<^verbatim>\<open>run\<close> constructs the SAC algorithm exactly once, with \<^verbatim>\<open>lr=3e-4\<close>,
  \<^verbatim>\<open>target_entropy=-6.0\<close>, \<^verbatim>\<open>discount=0.99\<close>, \<^verbatim>\<open>tau=1e-4\<close>, \<^verbatim>\<open>save_full_state=True\<close> and
  a \<^verbatim>\<open>base_kwargs\<close> with \<^verbatim>\<open>epoch_length=100\<close>, \<^verbatim>\<open>n_epochs=1000\<close>, \<^verbatim>\<open>n_train_repeat=1\<close>
  and \<^verbatim>\<open>eval_n_episodes=10\<close>, whatever else the variant holds.
\<close>

theorem run_sac_hyperparameters:
  assumes "dict_get variant ''policy_type'' = Some (VStr ''gmm'') \<or>
           dict_get variant ''policy_type'' = Some (VStr ''lsp'')"
  shows "length (calls_to ''SAC'' (fst (run variant yields))) = 1 \<and>
         kwarg_of ''SAC'' ''lr'' (fst (run variant yields)) = [Some (VFloat (3 / 10000))] \<and>
         kwarg_of ''SAC'' ''target_entropy'' (fst (run variant yields)) = [Some (VFloat (- 6))] \<and>
         kwarg_of ''SAC'' ''discount'' (fst (run variant yields)) = [Some (VFloat (99 / 100))] \<and>
         kwarg_of ''SAC'' ''tau'' (fst (run variant yields)) = [Some (VFloat (1 / 10000))] \<and>
         kwarg_of ''SAC'' ''save_full_state'' (fst (run variant yields)) = [Some (VBool True)] \<and>
         map (\<lambda>b. field b ''epoch_length'')
             (kwarg_of ''SAC'' ''base_kwargs'' (fst (run variant yields))) = [Some (VInt 100)] \<and>
         map (\<lambda>b. field b ''n_epochs'')
             (kwarg_of ''SAC'' ''base_kwargs'' (fst (run variant yields))) = [Some (VInt 1000)] \<and>
         map (\<lambda>b. field b ''n_train_repeat'')
             (kwarg_of ''SAC'' ''base_kwargs'' (fst (run variant yields))) = [Some (VInt 1)] \<and>
         map (\<lambda>b. field b ''eval_n_episodes'')
             (kwarg_of ''SAC'' ''base_kwargs'' (fst (run variant yields))) = [Some (VInt 10)]"
  using assms
proof
  assume "dict_get variant ''policy_type'' = Some (VStr ''gmm'')"
  then show ?thesis by (simp add: run_gmm trace_eval)
next
  assume "dict_get variant ''policy_type'' = Some (VStr ''lsp'')"
  then show ?thesis by (simp add: run_lsp trace_eval)
qed

theorem run_sac_hyperparameters_witness:
  "length (calls_to ''SAC'' (fst (run [(''policy_type'', VStr ''gmm'')] []))) = 1 \<and>
   kwarg_of ''SAC'' ''lr'' (fst (run [(''policy_type'', VStr ''gmm'')] []))
     = [Some (VFloat (3 / 10000))] \<and>
   kwarg_of ''SAC'' ''tau'' (fst (run [(''policy_type'', VStr ''gmm'')] []))
     = [Some (VFloat (1 / 10000))] \<and>
   map (\<lambda>b. field b ''n_epochs'')
       (kwarg_of ''SAC'' ''base_kwargs'' (fst (run [(''policy_type'', VStr ''gmm'')] [])))
     = [Some (VInt 1000)]"
proof -
  have "dict_get [(''policy_type'', VStr ''gmm'')] ''policy_type'' = Some (VStr ''gmm'') \<or>
        dict_get [(''policy_type'', VStr ''gmm'')] ''policy_type'' = Some (VStr ''lsp'')"
    by (simp add: dict_get_def)
  from run_sac_hyperparameters [OF this, of "[]"] show ?thesis by simp
qed

text \<open>
  Claim C5. For a variant whose policy type is \<^verbatim>\<open>'gmm'\<close>, \<^verbatim>\<open>run\<close> constructs one
  \<^verbatim>\<open>GMMPolicy\<close> and no \<^verbatim>\<open>LatentSpacePolicy\<close>, with \<^verbatim>\<open>K=4\<close>, \<^verbatim>\<open>reg=0.001\<close>,
  \<^verbatim>\<open>hidden_layer_sizes=[128, 128]\<close> and \<^verbatim>\<open>qf\<close> the object that the construction of the
  Q-function named \<^verbatim>\<open>'qf1'\<close> returned. For \<^verbatim>\<open>'lsp'\<close> it constructs one
  \<^verbatim>\<open>LatentSpacePolicy\<close> and no \<^verbatim>\<open>GMMPolicy\<close>, with \<^verbatim>\<open>squash=True\<close>, a
  \<^verbatim>\<open>bijector_config\<close> whose \<^verbatim>\<open>num_coupling_layers\<close> is 2, and \<^verbatim>\<open>q_function\<close> that same
  object. In both cases the policy object is the \<^verbatim>\<open>policy\<close> argument of the plotter and
  of the SAC algorithm.
\<close>

theorem run_policy_construction:
  "(dict_get variant ''policy_type'' = Some (VStr ''gmm'') \<longrightarrow>
      kwarg_of ''NNQFunction'' ''name'' (fst (run variant yields))
        = [Some (VStr ''qf1''), Some (VStr ''qf2'')] \<and>
      objects_of ''NNQFunction'' (fst (run variant yields)) = [VRef 4, VRef 5] \<and>
      objects_of ''GMMPolicy'' (fst (run variant yields)) = [VRef 7] \<and>
      objects_of ''LatentSpacePolicy'' (fst (run variant yields)) = [] \<and>
      kwarg_of ''GMMPolicy'' ''K'' (fst (run variant yields)) = [Some (VInt 4)] \<and>
      kwarg_of ''GMMPolicy'' ''reg'' (fst (run variant yields)) = [Some (VFloat (1 / 1000))] \<and>
      kwarg_of ''GMMPolicy'' ''hidden_layer_sizes'' (fst (run variant yields))
        = [Some (VList [VInt 128, VInt 128])] \<and>
      kwarg_of ''GMMPolicy'' ''qf'' (fst (run variant yields)) = [Some (VRef 4)] \<and>
      kwarg_of ''QFPolicyPlotter'' ''policy'' (fst (run variant yields)) = [Some (VRef 7)] \<and>
      kwarg_of ''SAC'' ''policy'' (fst (run variant yields)) = [Some (VRef 7)]) \<and>
   (dict_get variant ''policy_type'' = Some (VStr ''lsp'') \<longrightarrow>
      kwarg_of ''NNQFunction'' ''name'' (fst (run variant yields))
        = [Some (VStr ''qf1''), Some (VStr ''qf2'')] \<and>
      objects_of ''NNQFunction'' (fst (run variant yields)) = [VRef 4, VRef 5] \<and>
      objects_of ''LatentSpacePolicy'' (fst (run variant yields)) = [VRef 7] \<and>
      objects_of ''GMMPolicy'' (fst (run variant yields)) = [] \<and>
      kwarg_of ''LatentSpacePolicy'' ''squash'' (fst (run variant yields))
        = [Some (VBool True)] \<and>
      map (\<lambda>b. field b ''num_coupling_layers'')
          (kwarg_of ''LatentSpacePolicy'' ''bijector_config'' (fst (run variant yields)))
        = [Some (VInt 2)] \<and>
      kwarg_of ''LatentSpacePolicy'' ''q_function'' (fst (run variant yields))
        = [Some (VRef 4)] \<and>
      kwarg_of ''QFPolicyPlotter'' ''policy'' (fst (run variant yields)) = [Some (VRef 7)] \<and>
      kwarg_of ''SAC'' ''policy'' (fst (run variant yields)) = [Some (VRef 7)])"
proof (intro conjI impI)
  assume "dict_get variant ''policy_type'' = Some (VStr ''gmm'')"
  then have r: "run variant yields = run [(''policy_type'', VStr ''gmm'')] yields"
    by (simp add: run_def dict_get_def)
  have g: "dict_get [(''policy_type'', VStr ''gmm'')] ''policy_type'' = Some (VStr ''gmm'')"
    by (simp add: dict_get_def)
  note e = r run_gmm [OF g] trace_eval
  show "kwarg_of ''NNQFunction'' ''name'' (fst (run variant yields))
        = [Some (VStr ''qf1''), Some (VStr ''qf2'')]" by (simp add: e)
  show "objects_of ''NNQFunction'' (fst (run variant yields)) = [VRef 4, VRef 5]"
    by (simp add: e)
  show "objects_of ''GMMPolicy'' (fst (run variant yields)) = [VRef 7]" by (simp add: e)
  show "objects_of ''LatentSpacePolicy'' (fst (run variant yields)) = []" by (simp add: e)
  show "kwarg_of ''GMMPolicy'' ''K'' (fst (run variant yields)) = [Some (VInt 4)]"
    by (simp add: e)
  show "kwarg_of ''GMMPolicy'' ''reg'' (fst (run variant yields)) = [Some (VFloat (1 / 1000))]"
    by (simp add: e)
  show "kwarg_of ''GMMPolicy'' ''hidden_layer_sizes'' (fst (run variant yields))
        = [Some (VList [VInt 128, VInt 128])]" by (simp add: e)
  show "kwarg_of ''GMMPolicy'' ''qf'' (fst (run variant yields)) = [Some (VRef 4)]"
    by (simp add: e)
  show "kwarg_of ''QFPolicyPlotter'' ''policy'' (fst (run variant yields)) = [Some (VRef 7)]"
    by (simp add: e)
  show "kwarg_of ''SAC'' ''policy'' (fst (run variant yields)) = [Some (VRef 7)]"
    by (simp add: e)
next
  assume "dict_get variant ''policy_type'' = Some (VStr ''lsp'')"
  then have r: "run variant yields = run [(''policy_type'', VStr ''lsp'')] yields"
    by (simp add: run_def dict_get_def)
  have g: "dict_get [(''policy_type'', VStr ''lsp'')] ''policy_type'' = Some (VStr ''lsp'')"
    by (simp add: dict_get_def)
  note e = r run_lsp [OF g] trace_eval
  show "kwarg_of ''NNQFunction'' ''name'' (fst (run variant yields))
        = [Some (VStr ''qf1''), Some (VStr ''qf2'')]" by (simp add: e)
  show "objects_of ''NNQFunction'' (fst (run variant yields)) = [VRef 4, VRef 5]"
    by (simp add: e)
  show "objects_of ''LatentSpacePolicy'' (fst (run variant yields)) = [VRef 7]"
    by (simp add: e)
  show "objects_of ''GMMPolicy'' (fst (run variant yields)) = []" by (simp add: e)
  show "kwarg_of ''LatentSpacePolicy'' ''squash'' (fst (run variant yields))
        = [Some (VBool True)]" by (simp add: e)
  show "map (\<lambda>b. field b ''num_coupling_layers'')
          (kwarg_of ''LatentSpacePolicy'' ''bijector_config'' (fst (run variant yields)))
        = [Some (VInt 2)]" by (simp add: e)
  show "kwarg_of ''LatentSpacePolicy'' ''q_function'' (fst (run variant yields))
        = [Some (VRef 4)]" by (simp add: e)
  show "kwarg_of ''QFPolicyPlotter'' ''policy'' (fst (run variant yields)) = [Some (VRef 7)]"
    by (simp add: e)
  show "kwarg_of ''SAC'' ''policy'' (fst (run variant yields)) = [Some (VRef 7)]"
    by (simp add: e)
qed

theorem run_policy_construction_witness:
  "objects_of ''GMMPolicy'' (fst (run [(''policy_type'', VStr ''gmm'')] [])) = [VRef 7] \<and>
   kwarg_of ''GMMPolicy'' ''qf'' (fst (run [(''policy_type'', VStr ''gmm'')] []))
     = [Some (VRef 4)] \<and>
   kwarg_of ''SAC'' ''policy'' (fst (run [(''policy_type'', VStr ''gmm'')] []))
     = [Some (VRef 7)] \<and>
   objects_of ''LatentSpacePolicy'' (fst (run [(''policy_type'', VStr ''lsp'')] [])) = [VRef 7] \<and>
   kwarg_of ''LatentSpacePolicy'' ''q_function'' (fst (run [(''policy_type'', VStr ''lsp'')] []))
     = [Some (VRef 4)] \<and>
   kwarg_of ''QFPolicyPlotter'' ''policy'' (fst (run [(''policy_type'', VStr ''lsp'')] []))
     = [Some (VRef 7)]"
proof -
  have g: "dict_get [(''policy_type'', VStr ''gmm'')] ''policy_type'' = Some (VStr ''gmm'')"
    by (simp add: dict_get_def)
  have l: "dict_get [(''policy_type'', VStr ''lsp'')] ''policy_type'' = Some (VStr ''lsp'')"
    by (simp add: dict_get_def)
  from run_policy_construction [of "[(''policy_type'', VStr ''gmm'')]" "[]"]
       run_policy_construction [of "[(''policy_type'', VStr ''lsp'')]" "[]"] g l
  show ?thesis by simp
qed

text \<open>
  Claim C7. For every variant whose \<^verbatim>\<open>'policy_type'\<close> is a value other than the strings
  \<^verbatim>\<open>'gmm'\<close> and \<^verbatim>\<open>'lsp'\<close>, \<^verbatim>\<open>run\<close> ends with an unbound-local error for the name
  \<^verbatim>\<open>policy\<close>. The trace then ends with the construction of the value function, its
  seventh event: \<^verbatim>\<open>np.array\<close> and the plotter's constructor are not called, no SAC
  algorithm is constructed, the generator is not started and \<^verbatim>\<open>reporter\<close> is never
  called.
\<close>

theorem run_unbound_policy:
  assumes "dict_get variant ''policy_type'' = Some v"
    and "v \<noteq> VStr ''gmm''" and "v \<noteq> VStr ''lsp''"
  shows "snd (run variant yields) = Some (UnboundLocalError ''policy'') \<and>
         objects_of ''NNVFunction'' (fst (run variant yields)) = [VRef 6] \<and>
         length (fst (run variant yields)) = 7 \<and>
         calls_to ''np.array'' (fst (run variant yields)) = [] \<and>
         calls_to ''QFPolicyPlotter'' (fst (run variant yields)) = [] \<and>
         calls_to ''SAC'' (fst (run variant yields)) = [] \<and>
         trained (fst (run variant yields)) = [] \<and>
         reports (fst (run variant yields)) = []"
  by (simp add: run_other [OF assms] trace_eval)

theorem run_unbound_policy_witness:
  "snd (run [(''policy_type'', VStr ''GMM'')] [(VInt 0, VFloat 1)])
     = Some (UnboundLocalError ''policy'') \<and>
   length (fst (run [(''policy_type'', VStr ''GMM'')] [(VInt 0, VFloat 1)])) = 7 \<and>
   calls_to ''SAC'' (fst (run [(''policy_type'', VStr ''GMM'')] [(VInt 0, VFloat 1)])) = [] \<and>
   reports (fst (run [(''policy_type'', VStr ''GMM'')] [(VInt 0, VFloat 1)])) = []"
proof -
  have v: "dict_get [(''policy_type'', VStr ''GMM'')] ''policy_type'' = Some (VStr ''GMM'')"
    by (simp add: dict_get_def)
  have "VStr ''GMM'' \<noteq> VStr ''gmm''" and "VStr ''GMM'' \<noteq> VStr ''lsp''"
    by simp_all
  from run_unbound_policy [OF v this, of "[(VInt 0, VFloat 1)]"] show ?thesis by simp
qed

text \<open>
  Claim C8. \<^verbatim>\<open>run\<close> reads its variant at the key \<^verbatim>\<open>'policy_type'\<close> only: on two variants
  that agree there (both lack the key, or both hold the same value) and the same yielded
  pairs, it makes the same calls in the same order, the same calls of \<^verbatim>\<open>reporter\<close>
  among them, and ends the same way.
\<close>

theorem run_reads_only_policy_type:
  assumes "dict_get v1 ''policy_type'' = dict_get v2 ''policy_type''"
  shows "run v1 yields = run v2 yields"
  using assms by (simp add: run_def)

theorem run_reads_only_policy_type_witness:
  "dict_get [(''policy_type'', VStr ''gmm''), (''local_dir'', VStr ''~/ray_results'')]
       ''policy_type''
     = dict_get [(''seed'', VInt 3), (''policy_type'', VStr ''gmm'')] ''policy_type'' \<and>
   run [(''policy_type'', VStr ''gmm''), (''local_dir'', VStr ''~/ray_results'')]
       [(VInt 0, VFloat 1)]
     = run [(''seed'', VInt 3), (''policy_type'', VStr ''gmm'')] [(VInt 0, VFloat 1)]"
proof -
  have a: "dict_get [(''policy_type'', VStr ''gmm''), (''local_dir'', VStr ''~/ray_results'')]
       ''policy_type''
     = dict_get [(''seed'', VInt 3), (''policy_type'', VStr ''gmm'')] ''policy_type''"
    by (simp add: dict_get_def)
  from run_reads_only_policy_type [OF a, of "[(VInt 0, VFloat 1)]"] a show ?thesis by simp
qed

end
